theory Spec2Isabelle
  imports Complex_Main
begin

section \<open>JavaScript strings\<close>

text \<open>
  A JavaScript string is a sequence of code units; it is modelled as a \<open>string\<close>
  (a list of characters), and \<open>.length\<close> is \<open>length\<close>.  Every operation the
  provider uses (concatenation, \<open>indexOf\<close>, \<open>slice\<close>, \<open>split\<close>, \<open>join\<close>,
  \<open>startsWith\<close>, \<open>endsWith\<close>, \<open>trimEnd\<close>) works unit by unit.
\<close>

definition NL :: string where
  "NL = [CHR 0x0A]"

text \<open>\<open>s.startsWith(p)\<close> and \<open>s.endsWith(p)\<close>.\<close>

definition startsWith :: "string \<Rightarrow> string \<Rightarrow> bool" where
  "startsWith s p \<longleftrightarrow> take (length p) s = p"

definition endsWith :: "string \<Rightarrow> string \<Rightarrow> bool" where
  "endsWith s p \<longleftrightarrow> length p \<le> length s \<and> drop (length s - length p) s = p"

text \<open>\<open>s.indexOf(c)\<close> for a search string of one unit: the position of the first
  occurrence, and \<open>-1\<close> when there is none.\<close>

fun indexOf :: "string \<Rightarrow> char \<Rightarrow> int" where
  "indexOf [] c = -1"
| "indexOf (x # xs) c =
     (if x = c then 0
      else (let i = indexOf xs c in if i = -1 then -1 else i + 1))"

text \<open>\<open>s.slice(start)\<close>: a negative \<open>start\<close> counts from the end, and both ends
  are clamped to the string.\<close>

definition slice :: "string \<Rightarrow> int \<Rightarrow> string" where
  "slice s start =
     (if start < 0 then drop (nat (int (length s) + start)) s else drop (nat start) s)"

text \<open>\<open>s.split(c)\<close> for a separator of one unit; the empty string splits into one
  empty piece.\<close>

fun split :: "string \<Rightarrow> char \<Rightarrow> string list" where
  "split [] c = [[]]"
| "split (x # xs) c =
     (if x = c then [] # split xs c
      else (case split xs c of
              [] \<Rightarrow> [[x]]
            | piece # pieces \<Rightarrow> (x # piece) # pieces))"

text \<open>\<open>xs.join(sep)\<close>.\<close>

fun join :: "string list \<Rightarrow> string \<Rightarrow> string" where
  "join [] sep = []"
| "join [x] sep = x"
| "join (x # y # ys) sep = x @ sep @ join (y # ys) sep"

text \<open>\<open>s.trimEnd()\<close> removes trailing white space and line terminators; of the
  units a \<open>char\<close> can hold these are tab, line feed, vertical tab, form feed,
  carriage return, space and the no-break space.\<close>

definition isWhiteSpace :: "char \<Rightarrow> bool" where
  "isWhiteSpace c \<longleftrightarrow>
     c \<in> {CHR 0x09, CHR 0x0A, CHR 0x0B, CHR 0x0C, CHR 0x0D, CHR 0x20, CHR 0xA0}"

definition trimEnd :: "string \<Rightarrow> string" where
  "trimEnd s = rev (dropWhile isWhiteSpace (rev s))"

section \<open>Suffix truncation\<close>

definition getSuffixAfterFirstNewline :: "string \<Rightarrow> string" where
  "getSuffixAfterFirstNewline suffix =
     (let firstNlInSuffix = indexOf suffix (CHR 0x0A)
      in if firstNlInSuffix = -1 then []
         else slice suffix (indexOf suffix (CHR 0x0A)))"


section \<open>Data model\<close>

text \<open>
  The provider reads a few things that live outside the two files at hand: the
  characters-per-token ratio behind \<open>tokensToChars\<close>, the language profile lookup
  \<open>getLanguageConfig\<close>, the editor's \<open>asRelativePath\<close>, the prefix splitter
  \<open>getHeadAndTail\<close>, the two code tags and \<open>standardContextSizeHints\<close>.  They are
  parameters of the model, collected in one record.
\<close>

record DocumentContext =
  prefix :: string
  suffix :: string

record TextDocument =
  languageId :: string
  fileName :: string

text \<open>A context snippet always has a file name and a content; \<open>symbol\<close> is \<open>None\<close>
  when the object has no property of that name.\<close>

record ContextSnippet =
  snippetFileName :: string
  content :: string
  symbol :: "string option"

text \<open>The fields of \<open>ProviderOptions\<close> the provider reads; \<open>optN\<close> is the field
  \<open>n\<close>, the number of samples.\<close>

record ProviderOptions =
  docContext :: DocumentContext
  document :: TextDocument
  multiline :: bool
  optN :: nat
  dynamicMultilineCompletions :: bool
  hotStreak :: bool

text \<open>\<open>AutocompleteTimeouts\<close>: the fields \<open>multiline\<close> and \<open>singleline\<close>, each a
  number or undefined.\<close>

record AutocompleteTimeouts =
  multilineTimeout :: "int option"
  singlelineTimeout :: "int option"

record LanguageConfig =
  commentStart :: string

record TrimmedString =
  trimmed :: string
  raw :: string

record PrefixComponents =
  head :: TrimmedString
  tail :: TrimmedString

record 'h Externals =
  CHARS_PER_TOKEN :: nat
  getLanguageConfig :: "string \<Rightarrow> LanguageConfig option"
  asRelativePath :: "string \<Rightarrow> string"
  getHeadAndTail :: "string \<Rightarrow> PrefixComponents"
  OPENING_CODE_TAG :: string
  CLOSING_CODE_TAG :: string
  standardContextSizeHints :: "int \<Rightarrow> 'h"

text \<open>Modelled from the spec: \<open>tokensToChars\<close> is imported from the shared prompt
  constants, which are not among the source files; the spec describes it as a
  conversion at a fixed characters-per-token ratio.\<close>

definition tokensToChars :: "'h Externals \<Rightarrow> int \<Rightarrow> int" where
  "tokensToChars ext tokens = tokens * int (CHARS_PER_TOKEN ext)"

section \<open>Models and request presets\<close>

definition PROVIDER_IDENTIFIER :: string where
  "PROVIDER_IDENTIFIER = ''fireworks''"

definition EOT_STARCODER :: string where
  "EOT_STARCODER = ''<|endoftext|>''"

definition EOT_LLAMA_CODE :: string where
  "EOT_LLAMA_CODE = '' <EOT>''"

definition MODEL_MAP :: "(string \<times> string) list" where
  "MODEL_MAP =
     [(''starcoder-16b'', ''fireworks/starcoder-16b''),
      (''starcoder-7b'', ''fireworks/starcoder-7b''),
      (''starcoder-3b'', ''fireworks/accounts/fireworks/models/starcoder-3b-w8a16''),
      (''starcoder-1b'', ''fireworks/accounts/fireworks/models/starcoder-1b-w8a16''),
      (''llama-code-7b'', ''fireworks/accounts/fireworks/models/llama-v2-7b-code''),
      (''llama-code-13b'', ''fireworks/accounts/fireworks/models/llama-v2-13b-code''),
      (''llama-code-13b-instruct'',
         ''fireworks/accounts/fireworks/models/llama-v2-13b-code-instruct''),
      (''mistral-7b-instruct-4k'',
         ''fireworks/accounts/fireworks/models/mistral-7b-instruct-4k'')]"

definition getMaxContextTokens :: "string \<Rightarrow> int" where
  "getMaxContextTokens model =
     (if model = ''starcoder-hybrid'' \<or> model = ''starcoder-16b'' \<or> model = ''starcoder-7b''
         \<or> model = ''starcoder-3b'' \<or> model = ''starcoder-1b'' then 2048
      else if model = ''llama-code-7b'' \<or> model = ''llama-code-13b''
         \<or> model = ''llama-code-13b-instruct'' then 2048
      else if model = ''mistral-7b-instruct-4k'' then 2048
      else 1200)"

definition MAX_RESPONSE_TOKENS :: int where
  "MAX_RESPONSE_TOKENS = 256"

record CompletionArgs =
  timeoutMs :: int
  maxTokensToSample :: int
  stopSequences :: "string list option"

definition SINGLE_LINE_COMPLETION_ARGS :: CompletionArgs where
  "SINGLE_LINE_COMPLETION_ARGS =
     \<lparr>timeoutMs = 5000, maxTokensToSample = 30, stopSequences = Some [NL]\<rparr>"

definition MULTI_LINE_COMPLETION_ARGS :: CompletionArgs where
  "MULTI_LINE_COMPLETION_ARGS =
     \<lparr>timeoutMs = 15000, maxTokensToSample = MAX_RESPONSE_TOKENS,
      stopSequences = Some [NL @ NL, NL @ [CHR 0x0D] @ NL]\<rparr>"

definition DYNAMIC_MULTLILINE_COMPLETIONS_ARGS :: CompletionArgs where
  "DYNAMIC_MULTLILINE_COMPLETIONS_ARGS =
     \<lparr>timeoutMs = 15000, maxTokensToSample = MAX_RESPONSE_TOKENS, stopSequences = None\<rparr>"

text \<open>\<open>CodeCompletionsParams\<close>: the three preset fields and the rest of the request.
  A message is a pair of speaker and text; \<open>requestModel\<close> is the field \<open>model\<close>,
  undefined when the model table has no entry.\<close>

record CodeCompletionsParams = CompletionArgs +
  messages :: "(string \<times> string) list"
  temperature :: real
  topK :: int
  requestModel :: "string option"

definition isStarCoderFamily :: "string \<Rightarrow> bool" where
  "isStarCoderFamily model = startsWith model ''starcoder''"

definition isLlamaCode :: "string \<Rightarrow> bool" where
  "isLlamaCode model = startsWith model ''llama-code''"

section \<open>The provider\<close>

text \<open>The state of a \<open>FireworksProvider\<close>; the client handle is only passed on to
  the fetch pipeline and is left out.\<close>

record FireworksProvider =
  options :: ProviderOptions
  model :: string
  promptChars :: int
  timeouts :: "AutocompleteTimeouts option"

text \<open>The constructor: it is given a timeouts object, the field is declared optional.\<close>

definition newFireworksProvider ::
  "'h Externals \<Rightarrow> ProviderOptions \<Rightarrow> string \<Rightarrow> int \<Rightarrow> AutocompleteTimeouts
     \<Rightarrow> FireworksProvider" where
  "newFireworksProvider ext opts mdl maxContextTokens tmo =
     \<lparr>options = opts, model = mdl,
      promptChars = tokensToChars ext (maxContextTokens - MAX_RESPONSE_TOKENS),
      timeouts = Some tmo\<rparr>"

subsection \<open>Prompt construction\<close>

definition createInfillingPrompt ::
  "'h Externals \<Rightarrow> FireworksProvider \<Rightarrow> string \<Rightarrow> string \<Rightarrow> string \<Rightarrow> string \<Rightarrow> string" where
  "createInfillingPrompt ext p filename intro pre suf =
     (if isStarCoderFamily (model p) then
        ''<filename>'' @ filename @ ''<fim_prefix>'' @ intro @ pre @ ''<fim_suffix>'' @ suf
          @ ''<fim_middle>''
      else if isLlamaCode (model p) then
        ''<PRE> '' @ intro @ pre @ '' <SUF>'' @ suf @ '' <MID>''
      else if model p = ''mistral-7b-instruct-4k'' then
        (let relativeFilePath = asRelativePath ext (fileName (document (options p)));
             ht = getHeadAndTail ext (prefix (docContext (options p)));
             infillSuffix = suffix (docContext (options p));
             infillBlock = (if endsWith (trimmed (tail ht)) (''{'' @ NL)
                            then trimEnd (trimmed (tail ht)) else trimmed (tail ht));
             infillPrefix = raw (head ht)
         in ''<s>[INST] Below is the code from file path '' @ relativeFilePath
            @ ''. Review the code outside the XML tags to detect the functionality, formats, style, patterns, and logics in use. Then, use what you detect and reuse methods/libraries to complete and enclose completed code only inside XML tags precisely without duplicating existing implementations. Here is the code:''
            @ NL @ ''```'' @ NL
            @ intro @ infillPrefix @ OPENING_CODE_TAG ext @ CLOSING_CODE_TAG ext @ infillSuffix
            @ NL @ ''```[/INST]'' @ NL @ '' '' @ OPENING_CODE_TAG ext @ infillBlock)
      else intro @ pre)"

text \<open>The text pushed to the intro for one snippet.\<close>

definition snippetIntro :: "ContextSnippet \<Rightarrow> string" where
  "snippetIntro snippet =
     (case symbol snippet of
        Some symb \<Rightarrow>
          (if symb \<noteq> [] then
             ''Additional documentation for `'' @ symb @ ''`:'' @ NL @ NL @ content snippet
           else
             ''Here is a reference snippet of code from '' @ snippetFileName snippet @ '':''
               @ NL @ NL @ content snippet)
      | None \<Rightarrow>
          ''Here is a reference snippet of code from '' @ snippetFileName snippet @ '':''
            @ NL @ NL @ content snippet)"

text \<open>\<open>introString\<close>: the intro joined by blank lines, split into lines, each line
  mapped by the comment function, joined again, with a final line feed.\<close>

definition introString :: "LanguageConfig option \<Rightarrow> string list \<Rightarrow> string" where
  "introString languageConfig intro =
     join (map (\<lambda>line. case languageConfig of
                          Some lc \<Rightarrow> commentStart lc @ line
                        | None \<Rightarrow> ''// '')
               (split (join intro (NL @ NL)) (CHR 0x0A))) NL
     @ NL"

text \<open>\<open>nextPrompt\<close> of one round of the loop, from the intro accumulated so far.\<close>

definition nextPrompt :: "'h Externals \<Rightarrow> FireworksProvider \<Rightarrow> string list \<Rightarrow> string" where
  "nextPrompt ext p intro =
     createInfillingPrompt ext p
       (asRelativePath ext (fileName (document (options p))))
       (introString (getLanguageConfig ext (languageId (document (options p)))) intro)
       (prefix (docContext (options p)))
       (getSuffixAfterFirstNewline (suffix (docContext (options p))))"

text \<open>The \<open>for\<close> loop of \<open>createPrompt\<close>, from the round \<open>snippetsToInclude\<close> on, with
  the intro and the accepted prompt of the rounds before.\<close>

function createPrompt_loop ::
  "'h Externals \<Rightarrow> FireworksProvider \<Rightarrow> ContextSnippet list \<Rightarrow> nat \<Rightarrow> string list \<Rightarrow> string
     \<Rightarrow> string" where
  "createPrompt_loop ext p snippets snippetsToInclude intro prompt =
     (if snippetsToInclude < length snippets + 1 then
        (if int (length (nextPrompt ext p
                (if snippetsToInclude > 0
                 then intro @ [snippetIntro (snippets ! (snippetsToInclude - 1))]
                 else intro))) \<ge> promptChars p
         then prompt
         else createPrompt_loop ext p snippets (snippetsToInclude + 1)
                (if snippetsToInclude > 0
                 then intro @ [snippetIntro (snippets ! (snippetsToInclude - 1))]
                 else intro)
                (nextPrompt ext p
                   (if snippetsToInclude > 0
                    then intro @ [snippetIntro (snippets ! (snippetsToInclude - 1))]
                    else intro)))
      else prompt)"
  by pat_completeness auto
termination
  by (relation "measure (\<lambda>(ext, p, snippets, i, intro, prompt). length snippets + 1 - i)") auto

declare createPrompt_loop.simps [simp del]

definition createPrompt ::
  "'h Externals \<Rightarrow> FireworksProvider \<Rightarrow> ContextSnippet list \<Rightarrow> string" where
  "createPrompt ext p snippets =
     createPrompt_loop ext p snippets 0
       (if \<not> isStarCoderFamily (model p)
        then [''Path: '' @ fileName (document (options p))] else [])
       []"


text \<open>The intro after the snippets of the first \<open>k\<close> rounds have been pushed, and
  the \<open>nextPrompt\<close> of round \<open>k\<close>: the candidate prompt with \<open>k\<close> snippets.\<close>

definition introOf :: "FireworksProvider \<Rightarrow> ContextSnippet list \<Rightarrow> nat \<Rightarrow> string list" where
  "introOf p snippets k =
     (if \<not> isStarCoderFamily (model p)
      then [''Path: '' @ fileName (document (options p))] else [])
     @ map snippetIntro (take k snippets)"

definition candidate ::
  "'h Externals \<Rightarrow> FireworksProvider \<Rightarrow> ContextSnippet list \<Rightarrow> nat \<Rightarrow> string" where
  "candidate ext p snippets k = nextPrompt ext p (introOf p snippets k)"

subsection \<open>Requests\<close>

definition effectiveModel :: "FireworksProvider \<Rightarrow> string option" where
  "effectiveModel p =
     (if model p = ''starcoder-hybrid''
      then map_of MODEL_MAP (if multiline (options p) then ''starcoder-16b'' else ''starcoder-7b'')
      else map_of MODEL_MAP (model p))"

definition useExtendedGeneration :: "FireworksProvider \<Rightarrow> bool" where
  "useExtendedGeneration p \<longleftrightarrow>
     multiline (options p) \<or> dynamicMultilineCompletions (options p) \<or> hotStreak (options p)"

text \<open>\<open>this.timeouts?.multiline\<close> and \<open>this.timeouts?.singleline\<close>.\<close>

definition timeoutsMultiline :: "FireworksProvider \<Rightarrow> int option" where
  "timeoutsMultiline p = (case timeouts p of None \<Rightarrow> None | Some t \<Rightarrow> multilineTimeout t)"

definition timeoutsSingleline :: "FireworksProvider \<Rightarrow> int option" where
  "timeoutsSingleline p = (case timeouts p of None \<Rightarrow> None | Some t \<Rightarrow> singlelineTimeout t)"

text \<open>The request parameters as they stand when the zero test is reached: the preset
  of the mode, the message, the sampling parameters and the model, then the two
  timeout overrides.  An override is applied when its value is truthy, that is,
  defined and not zero.\<close>

definition resolveRequestParams ::
  "'h Externals \<Rightarrow> FireworksProvider \<Rightarrow> ContextSnippet list \<Rightarrow> CodeCompletionsParams" where
  "resolveRequestParams ext p snippets =
     (let prompt = createPrompt ext p snippets;
          mdl = effectiveModel p;
          args = (if useExtendedGeneration p
                  then MULTI_LINE_COMPLETION_ARGS else SINGLE_LINE_COMPLETION_ARGS);
          requestParams0 =
            \<lparr>timeoutMs = timeoutMs args, maxTokensToSample = maxTokensToSample args,
             stopSequences = stopSequences args,
             messages = [(''human'', prompt)], temperature = 0.2, topK = 0,
             requestModel = mdl\<rparr>;
          requestParams1 =
            (case timeoutsMultiline p of
               Some v \<Rightarrow> (if v \<noteq> 0 \<and> useExtendedGeneration p
                          then requestParams0\<lparr>timeoutMs := v\<rparr> else requestParams0)
             | None \<Rightarrow> requestParams0)
      in (case timeoutsSingleline p of
            Some v \<Rightarrow> (if v \<noteq> 0 \<and> \<not> useExtendedGeneration p
                       then requestParams1\<lparr>timeoutMs := v\<rparr> else requestParams1)
          | None \<Rightarrow> requestParams1))"

datatype FetchImpl = FetchAndProcessCompletions | FetchAndProcessDynamicMultilineCompletions

record FetchCall =
  fetchImpl :: FetchImpl
  requestParams :: CodeCompletionsParams

text \<open>What one call of \<open>generateCompletions\<close> does to the outside: the parameters
  handed to the tracer, the fetches started, and the calls of the caller's
  \<open>onCompletionReady\<close>, each with the list it is given at that moment.\<close>

record 'c Outcome =
  tracedParams :: "CodeCompletionsParams option"
  fetches :: "FetchCall list"
  completionReadyCalls :: "'c list list"

text \<open>\<open>onCompletionReadyImpl\<close>, on the pair of the \<open>completions\<close> array and the calls
  of \<open>onCompletionReady\<close> made so far.\<close>

definition onCompletionReadyImpl ::
  "nat \<Rightarrow> 'c list \<times> 'c list list \<Rightarrow> 'c \<Rightarrow> 'c list \<times> 'c list list" where
  "onCompletionReadyImpl n st completion =
     (let completions = fst st @ [completion]
      in if length completions = n then (completions, snd st @ [completions])
         else (completions, snd st))"

text \<open>
  The fetch pipeline is outside the source files.  All it does to the provider is call
  \<open>onCompletionReadyImpl\<close>, any number of times per fetch and in any order across the
  fetches; on the single-threaded event loop these calls form one sequence.  The
  sequence is a parameter: a list of pairs of the index of the fetch and the item it
  delivers.  Only fetches that were started deliver.

  The part of \<open>generateCompletions\<close> from the zero test on, for given request
  parameters:
\<close>

definition dispatchRequests ::
  "FireworksProvider \<Rightarrow> CodeCompletionsParams \<Rightarrow> (nat \<times> 'c) list \<Rightarrow> 'c Outcome" where
  "dispatchRequests p requestParams0 deliveries =
     (if timeoutMs requestParams0 = 0 then
        \<lparr>tracedParams = None, fetches = [], completionReadyCalls = [[]]\<rparr>
      else
        (let dyn = dynamicMultilineCompletions (options p);
             requestParams1 =
               (if dyn then
                  requestParams0
                    \<lparr>timeoutMs := timeoutMs DYNAMIC_MULTLILINE_COMPLETIONS_ARGS,
                     maxTokensToSample := maxTokensToSample DYNAMIC_MULTLILINE_COMPLETIONS_ARGS,
                     stopSequences := stopSequences DYNAMIC_MULTLILINE_COMPLETIONS_ARGS\<rparr>
                else requestParams0);
             fetchAndProcessCompletionsImpl =
               (if dyn then FetchAndProcessDynamicMultilineCompletions
                else FetchAndProcessCompletions);
             n = optN (options p)
         in \<lparr>tracedParams = Some requestParams1,
             fetches = replicate n
               \<lparr>fetchImpl = fetchAndProcessCompletionsImpl, requestParams = requestParams1\<rparr>,
             completionReadyCalls =
               snd (foldl (onCompletionReadyImpl n) ([], [])
                      (map snd (filter (\<lambda>d. fst d < n) deliveries)))\<rparr>))"

definition generateCompletions ::
  "'h Externals \<Rightarrow> FireworksProvider \<Rightarrow> ContextSnippet list \<Rightarrow> (nat \<times> 'c) list \<Rightarrow> 'c Outcome" where
  "generateCompletions ext p snippets deliveries =
     dispatchRequests p (resolveRequestParams ext p snippets) deliveries"

text \<open>The timeouts of the fetches that were started, in order.\<close>

definition dispatchedTimeouts :: "'c Outcome \<Rightarrow> int list" where
  "dispatchedTimeouts out = map (\<lambda>f. timeoutMs (requestParams f)) (fetches out)"

text \<open>
  The aggregator state is well formed for \<open>n\<close> samples: either nothing has been
  handed to the caller and fewer than \<open>n\<close> items have arrived (or \<open>n\<close> is zero),
  or at least \<open>n > 0\<close> items have arrived and the caller was called once, with the
  first \<open>n\<close> of them.
\<close>

definition aggregated :: "nat \<Rightarrow> 'c list \<times> 'c list list \<Rightarrow> bool" where
  "aggregated n st \<longleftrightarrow>
     (snd st = [] \<and> (length (fst st) < n \<or> n = 0))
     \<or> (0 < n \<and> n \<le> length (fst st) \<and> snd st = [take n (fst st)])"

section \<open>The provider configuration\<close>

datatype error = Error string

record 'h ProviderConfig =
  create :: "ProviderOptions \<Rightarrow> FireworksProvider"
  contextSizeHints :: 'h
  configIdentifier :: string
  configModel :: string

text \<open>\<open>resolvedModel\<close>; the argument is \<open>None\<close> for \<open>null\<close>.\<close>

definition resolvedModel :: "string option \<Rightarrow> string option" where
  "resolvedModel mdl =
     (if mdl = None \<or> mdl = Some [] then Some ''starcoder-hybrid''
      else if mdl = Some ''starcoder-hybrid'' then Some ''starcoder-hybrid''
      else if map_of MODEL_MAP (the mdl) \<noteq> None then mdl
      else None)"

definition createProviderConfig ::
  "'h Externals \<Rightarrow> string option \<Rightarrow> AutocompleteTimeouts \<Rightarrow> error + 'h ProviderConfig" where
  "createProviderConfig ext mdl tmo =
     (case resolvedModel mdl of
        None \<Rightarrow>
          Inl (Error (''Unknown model: `'' @ (case mdl of None \<Rightarrow> ''null'' | Some m \<Rightarrow> m)
                        @ ''`''))
      | Some rm \<Rightarrow>
          (let maxContextTokens = getMaxContextTokens rm
           in Inr \<lparr>create = (\<lambda>opts. newFireworksProvider ext opts rm maxContextTokens tmo),
                   contextSizeHints = standardContextSizeHints ext maxContextTokens,
                   configIdentifier = PROVIDER_IDENTIFIER,
                   configModel = rm\<rparr>))"

section \<open>Sample inputs\<close>

text \<open>Concrete values on which the model is run: a language profile table with two
  languages, four characters per token, and a small Python document.\<close>

definition sampleExternals :: "unit Externals" where
  "sampleExternals =
     \<lparr>CHARS_PER_TOKEN = 4,
      getLanguageConfig =
        (\<lambda>l. if l = ''typescript'' then Some \<lparr>commentStart = ''// ''\<rparr>
             else if l = ''python'' then Some \<lparr>commentStart = ''# ''\<rparr>
             else None),
      asRelativePath = (\<lambda>f. f),
      getHeadAndTail =
        (\<lambda>s. \<lparr>head = \<lparr>trimmed = s, raw = s\<rparr>, tail = \<lparr>trimmed = s, raw = s\<rparr>\<rparr>),
      OPENING_CODE_TAG = ''<CODE5711>'', CLOSING_CODE_TAG = ''</CODE5711>'',
      standardContextSizeHints = (\<lambda>n. ())\<rparr>"

definition sampleOptions :: ProviderOptions where
  "sampleOptions =
     \<lparr>docContext = \<lparr>prefix = ''def f():'' @ NL, suffix = NL @ ''    pass''\<rparr>,
      document = \<lparr>languageId = ''python'', fileName = ''a.py''\<rparr>,
      multiline = False, optN = 2, dynamicMultilineCompletions = False, hotStreak = False\<rparr>"

definition sampleSnippet :: ContextSnippet where
  "sampleSnippet = \<lparr>snippetFileName = ''b.py'', content = ''x = 1'', symbol = None\<rparr>"

definition noTimeouts :: AutocompleteTimeouts where
  "noTimeouts = \<lparr>multilineTimeout = None, singlelineTimeout = None\<rparr>"

text \<open>The configuration built for the default model.\<close>

definition sampleConfig :: "unit ProviderConfig" where
  "sampleConfig =
     \<lparr>create =
        (\<lambda>opts. newFireworksProvider sampleExternals opts ''starcoder-hybrid'' 2048 noTimeouts),
      contextSizeHints = (),
      configIdentifier = ''fireworks'',
      configModel = ''starcoder-hybrid''\<rparr>"

text \<open>The sample document with the dynamic-multiline flag, with the multiline flag, in
  a language without a profile, and a document whose prefix alone has as many characters as the budget of the
  default model.\<close>

definition dynOptions :: ProviderOptions where
  "dynOptions = sampleOptions\<lparr>dynamicMultilineCompletions := True\<rparr>"

definition multilineOptions :: ProviderOptions where
  "multilineOptions = sampleOptions\<lparr>multiline := True\<rparr>"

definition plainOptions :: ProviderOptions where
  "plainOptions =
     sampleOptions\<lparr>document := \<lparr>languageId = ''plaintext'', fileName = ''notes.txt''\<rparr>\<rparr>"

definition longOptions :: ProviderOptions where
  "longOptions =
     sampleOptions\<lparr>docContext := \<lparr>prefix = replicate 7168 (CHR ''x''), suffix = []\<rparr>\<rparr>"

section \<open>Properties\<close>

subsection \<open>Strings\<close>

lemma indexOf_absent: "c \<notin> set s \<Longrightarrow> indexOf s c = -1"
  by (induction s) (auto simp: Let_def)

lemma indexOf_present:
  "c \<in> set s \<Longrightarrow> indexOf s c = int (length (takeWhile (\<lambda>x. x \<noteq> c) s))"
proof (induction s)
  case Nil
  then show ?case by simp
next
  case (Cons x xs)
  show ?case
  proof (cases "x = c")
    case True
    then show ?thesis by simp
  next
    case False
    with Cons.prems have "c \<in> set xs" by simp
    with Cons.IH False show ?thesis by (simp add: Let_def)
  qed
qed

lemma indexOf_nonneg_iff: "indexOf s c = -1 \<longleftrightarrow> c \<notin> set s"
proof
  assume h: "indexOf s c = -1"
  show "c \<notin> set s"
  proof
    assume "c \<in> set s"
    then have "indexOf s c = int (length (takeWhile (\<lambda>x. x \<noteq> c) s))"
      by (rule indexOf_present)
    with h show False by simp
  qed
next
  assume "c \<notin> set s"
  then show "indexOf s c = -1" by (rule indexOf_absent)
qed


subsection \<open>The prompt loop\<close>

lemma createPrompt_loop_length:
  "int (length prompt) \<le> promptChars p \<Longrightarrow>
   int (length (createPrompt_loop ext p snippets i intro prompt)) \<le> promptChars p"
proof (induction ext p snippets i intro prompt rule: createPrompt_loop.induct)
  case (1 ext p snippets i intro prompt)
  show ?case
    using "1.prems" "1.IH"
    by (subst createPrompt_loop.simps) (simp del: One_nat_def)
qed

lemma createPrompt_bound:
  assumes "0 \<le> promptChars p"
  shows "int (length (createPrompt ext p snippets)) \<le> promptChars p"
  unfolding createPrompt_def using assms by (intro createPrompt_loop_length) simp

lemma introOf_step:
  assumes "0 < i" "i \<le> length snippets"
  shows "introOf p snippets (i - 1) @ [snippetIntro (snippets ! (i - 1))] = introOf p snippets i"
proof -
  from assms obtain j where j: "i = Suc j" "j < length snippets"
    by (cases i) auto
  then show ?thesis
    by (simp add: introOf_def take_Suc_conv_app_nth)
qed

lemma createPrompt_loop_exit:
  "length snippets < i \<Longrightarrow> createPrompt_loop ext p snippets i intro prompt = prompt"
  by (subst createPrompt_loop.simps) simp

text \<open>One round of the loop, in terms of the candidates.\<close>

lemma createPrompt_loop_round:
  assumes "i \<le> length snippets"
  shows "createPrompt_loop ext p snippets i (introOf p snippets (i - 1)) prompt
         = (if promptChars p \<le> int (length (candidate ext p snippets i)) then prompt
            else createPrompt_loop ext p snippets (Suc i) (introOf p snippets i)
                   (candidate ext p snippets i))"
proof -
  have r: "(if 0 < i
            then introOf p snippets (i - 1) @ [snippetIntro (snippets ! (i - 1))]
            else introOf p snippets (i - 1)) = introOf p snippets i"
  proof (cases "0 < i")
    case True
    with assms show ?thesis by (simp only: introOf_step if_True)
  next
    case False
    then show ?thesis by simp
  qed
  have c: "i < length snippets + 1" using assms by simp
  show ?thesis
    by (subst createPrompt_loop.simps)
       (simp only: r c if_True candidate_def Suc_eq_plus1)
qed

lemma createPrompt_loop_accept:
  assumes "i \<le> k" "k \<le> length snippets"
    and "\<forall>j. i \<le> j \<and> j \<le> k \<longrightarrow> int (length (candidate ext p snippets j)) < promptChars p"
    and "k < length snippets \<longrightarrow> promptChars p \<le> int (length (candidate ext p snippets (Suc k)))"
  shows "createPrompt_loop ext p snippets i (introOf p snippets (i - 1)) prompt
         = candidate ext p snippets k"
  using assms
proof (induction "k - i" arbitrary: i prompt)
  case 0
  then have ik: "i = k" by simp
  from 0 ik have fit: "int (length (candidate ext p snippets k)) < promptChars p" by simp
  have after: "createPrompt_loop ext p snippets (Suc k) (introOf p snippets (Suc k - 1))
           (candidate ext p snippets k) = candidate ext p snippets k"
  proof (cases "k < length snippets")
    case True
    with 0 have "promptChars p \<le> int (length (candidate ext p snippets (Suc k)))" by simp
    moreover from True have "Suc k \<le> length snippets" by simp
    ultimately show ?thesis by (simp only: createPrompt_loop_round if_True)
  next
    case False
    then show ?thesis by (simp add: createPrompt_loop_exit)
  qed
  have "createPrompt_loop ext p snippets k (introOf p snippets (k - 1)) prompt
        = createPrompt_loop ext p snippets (Suc k) (introOf p snippets k)
             (candidate ext p snippets k)"
    using "0.prems"(2) fit by (simp only: createPrompt_loop_round) simp
  with after show ?case by (simp add: ik)
next
  case (Suc d)
  then have lt: "i < k" by simp
  with Suc have fit: "int (length (candidate ext p snippets i)) < promptChars p" by simp
  from lt Suc.prems have il: "i \<le> length snippets" by simp
  have "createPrompt_loop ext p snippets (Suc i) (introOf p snippets (Suc i - 1))
          (candidate ext p snippets i) = candidate ext p snippets k"
  proof (rule Suc.hyps(1))
    show "d = k - Suc i" using Suc.hyps(2) by simp
    show "Suc i \<le> k" using lt by simp
    show "k \<le> length snippets" by (rule Suc.prems(2))
    show "\<forall>j. Suc i \<le> j \<and> j \<le> k \<longrightarrow> int (length (candidate ext p snippets j)) < promptChars p"
      using Suc.prems(3) by simp
    show "k < length snippets \<longrightarrow> promptChars p \<le> int (length (candidate ext p snippets (Suc k)))"
      by (rule Suc.prems(4))
  qed
  moreover have "createPrompt_loop ext p snippets i (introOf p snippets (i - 1)) prompt
        = createPrompt_loop ext p snippets (Suc i) (introOf p snippets i)
             (candidate ext p snippets i)"
    using il fit by (simp only: createPrompt_loop_round) simp
  ultimately show ?case by simp
qed

lemma createPrompt_start:
  "createPrompt ext p snippets = createPrompt_loop ext p snippets 0 (introOf p snippets (0 - 1)) []"
  by (simp add: createPrompt_def introOf_def)

lemma createPrompt_none_fits:
  "promptChars p \<le> int (length (candidate ext p snippets 0)) \<Longrightarrow> createPrompt ext p snippets = []"
  unfolding createPrompt_start by (simp only: createPrompt_loop_round le0 if_True)

lemma createPrompt_last_fit:
  assumes "k \<le> length snippets"
    and "\<forall>j\<le>k. int (length (candidate ext p snippets j)) < promptChars p"
    and "k < length snippets \<longrightarrow> promptChars p \<le> int (length (candidate ext p snippets (Suc k)))"
  shows "createPrompt ext p snippets = candidate ext p snippets k"
  unfolding createPrompt_start
proof (rule createPrompt_loop_accept)
  show "0 \<le> k" by simp
  show "k \<le> length snippets" by (rule assms(1))
  show "\<forall>j. 0 \<le> j \<and> j \<le> k \<longrightarrow> int (length (candidate ext p snippets j)) < promptChars p"
    using assms(2) by simp
  show "k < length snippets \<longrightarrow> promptChars p \<le> int (length (candidate ext p snippets (Suc k)))"
    by (rule assms(3))
qed

text \<open>The timeouts of the provider do not enter the prompt.\<close>

lemma nextPrompt_timeouts [simp]:
  "nextPrompt ext (p\<lparr>timeouts := t\<rparr>) intro = nextPrompt ext p intro"
  by (simp add: nextPrompt_def createInfillingPrompt_def)

lemma createPrompt_loop_timeouts:
  "createPrompt_loop ext (p\<lparr>timeouts := t\<rparr>) snippets i intro prompt
   = createPrompt_loop ext p snippets i intro prompt"
proof (induction ext p snippets i intro prompt rule: createPrompt_loop.induct)
  case (1 ext p snippets i intro prompt)
  show ?case
    using "1.IH"
    by (subst createPrompt_loop.simps, subst (2) createPrompt_loop.simps)
       (simp del: One_nat_def)
qed

lemma createPrompt_timeouts [simp]:
  "createPrompt ext (p\<lparr>timeouts := t\<rparr>) snippets = createPrompt ext p snippets"
  by (simp add: createPrompt_def createPrompt_loop_timeouts)

subsection \<open>The provider configuration\<close>

lemma getMaxContextTokens_ge: "MAX_RESPONSE_TOKENS \<le> getMaxContextTokens m"
  by (simp add: getMaxContextTokens_def MAX_RESPONSE_TOKENS_def)

lemma createProviderConfig_Inr:
  assumes "createProviderConfig ext mdl tmo = Inr cfg"
  obtains rm where "resolvedModel mdl = Some rm"
    and "cfg = \<lparr>create = (\<lambda>opts. newFireworksProvider ext opts rm (getMaxContextTokens rm) tmo),
                contextSizeHints = standardContextSizeHints ext (getMaxContextTokens rm),
                configIdentifier = PROVIDER_IDENTIFIER, configModel = rm\<rparr>"
  using assms
  by (cases "resolvedModel mdl") (auto simp: createProviderConfig_def Let_def)

lemma sampleConfig_created:
  "createProviderConfig sampleExternals None noTimeouts = Inr sampleConfig"
  by (simp add: createProviderConfig_def resolvedModel_def getMaxContextTokens_def
      sampleConfig_def sampleExternals_def PROVIDER_IDENTIFIER_def)

subsection \<open>Request parameters\<close>

lemma resolveRequestParams_timeout_nonzero:
  "timeoutMs (resolveRequestParams ext p snippets) \<noteq> 0"
  by (simp add: resolveRequestParams_def Let_def SINGLE_LINE_COMPLETION_ARGS_def
      MULTI_LINE_COMPLETION_ARGS_def split: option.splits)

lemma useExtendedGeneration_timeouts [simp]:
  "useExtendedGeneration (p\<lparr>timeouts := t\<rparr>) = useExtendedGeneration p"
  by (simp add: useExtendedGeneration_def)

lemma effectiveModel_timeouts [simp]:
  "effectiveModel (p\<lparr>timeouts := t\<rparr>) = effectiveModel p"
  by (simp add: effectiveModel_def)

lemma dispatchRequests_timeouts [simp]:
  "dispatchRequests (p\<lparr>timeouts := t\<rparr>) rp deliveries = dispatchRequests p rp deliveries"
  by (simp add: dispatchRequests_def)

text \<open>The resolved timeout, and the resolved parameters in each mode.\<close>

lemma resolveRequestParams_timeoutMs:
  "timeoutMs (resolveRequestParams ext p snippets)
   = (if useExtendedGeneration p
      then (case timeoutsMultiline p of
              None \<Rightarrow> 15000 | Some v \<Rightarrow> if v \<noteq> 0 then v else 15000)
      else (case timeoutsSingleline p of
              None \<Rightarrow> 5000 | Some v \<Rightarrow> if v \<noteq> 0 then v else 5000))"
  by (cases "timeoutsMultiline p"; cases "timeoutsSingleline p")
     (simp_all add: resolveRequestParams_def Let_def SINGLE_LINE_COMPLETION_ARGS_def
        MULTI_LINE_COMPLETION_ARGS_def)

lemma resolveRequestParams_extended:
  assumes "useExtendedGeneration p"
  shows "resolveRequestParams ext p snippets
   = \<lparr>timeoutMs = (case timeoutsMultiline p of
                      None \<Rightarrow> 15000 | Some v \<Rightarrow> if v \<noteq> 0 then v else 15000),
      maxTokensToSample = 256,
      stopSequences = Some [NL @ NL, NL @ [CHR 0x0D] @ NL],
      messages = [(''human'', createPrompt ext p snippets)], temperature = 0.2, topK = 0,
      requestModel = effectiveModel p\<rparr>"
  using assms
  by (cases "timeoutsMultiline p"; cases "timeoutsSingleline p")
     (simp_all add: resolveRequestParams_def Let_def MULTI_LINE_COMPLETION_ARGS_def
        MAX_RESPONSE_TOKENS_def)

lemma resolveRequestParams_single:
  assumes "\<not> useExtendedGeneration p"
  shows "resolveRequestParams ext p snippets
   = \<lparr>timeoutMs = (case timeoutsSingleline p of
                      None \<Rightarrow> 5000 | Some v \<Rightarrow> if v \<noteq> 0 then v else 5000),
      maxTokensToSample = 30,
      stopSequences = Some [NL],
      messages = [(''human'', createPrompt ext p snippets)], temperature = 0.2, topK = 0,
      requestModel = effectiveModel p\<rparr>"
  using assms
  by (cases "timeoutsMultiline p"; cases "timeoutsSingleline p")
     (simp_all add: resolveRequestParams_def Let_def SINGLE_LINE_COMPLETION_ARGS_def)

lemma effectiveModel_hybrid:
  "model p = ''starcoder-hybrid'' \<Longrightarrow>
   effectiveModel p = Some (if multiline (options p) then ''fireworks/starcoder-16b''
                            else ''fireworks/starcoder-7b'')"
  by (simp add: effectiveModel_def MODEL_MAP_def)

text \<open>The fetches that are started.\<close>

lemma generateCompletions_fetches:
  "fetches (generateCompletions ext p snippets deliveries)
   = replicate (optN (options p))
       (if dynamicMultilineCompletions (options p) then
          \<lparr>fetchImpl = FetchAndProcessDynamicMultilineCompletions,
           requestParams = (resolveRequestParams ext p snippets)
             \<lparr>timeoutMs := 15000, maxTokensToSample := 256, stopSequences := None\<rparr>\<rparr>
        else
          \<lparr>fetchImpl = FetchAndProcessCompletions,
           requestParams = resolveRequestParams ext p snippets\<rparr>)"
  by (simp add: generateCompletions_def dispatchRequests_def Let_def
      resolveRequestParams_timeout_nonzero DYNAMIC_MULTLILINE_COMPLETIONS_ARGS_def
      MAX_RESPONSE_TOKENS_def)

lemma generateCompletions_dispatchedTimeouts:
  "dispatchedTimeouts (generateCompletions ext p snippets deliveries)
   = replicate (optN (options p))
       (if dynamicMultilineCompletions (options p) then 15000
        else timeoutMs (resolveRequestParams ext p snippets))"
  by (simp add: dispatchedTimeouts_def generateCompletions_fetches)

subsection \<open>The aggregator\<close>

lemma aggregated_start: "aggregated n ([], [])"
  by (auto simp: aggregated_def)

lemma aggregated_step:
  assumes "aggregated n st"
  shows "aggregated n (onCompletionReadyImpl n st c)"
proof -
  from assms consider
      (pending) "snd st = []" "length (fst st) < n"
    | (never) "snd st = []" "n = 0"
    | (delivered) "0 < n" "n \<le> length (fst st)" "snd st = [take n (fst st)]"
    by (auto simp: aggregated_def)
  then show ?thesis
  proof cases
    case pending
    then show ?thesis
      by (cases "Suc (length (fst st)) = n")
         (auto simp: aggregated_def onCompletionReadyImpl_def Let_def)
  next
    case never
    then show ?thesis
      by (simp add: aggregated_def onCompletionReadyImpl_def Let_def)
  next
    case delivered
    then show ?thesis
      by (simp add: aggregated_def onCompletionReadyImpl_def Let_def)
  qed
qed

lemma aggregated_foldl:
  "aggregated n st \<Longrightarrow> aggregated n (foldl (onCompletionReadyImpl n) st cs)"
  by (induction cs arbitrary: st) (simp_all add: aggregated_step)

lemma aggregated_calls:
  assumes "aggregated n st"
  shows "length (snd st) \<le> 1 \<and> (\<forall>items \<in> set (snd st). length items = n)"
  using assms by (auto simp: aggregated_def)

lemma dispatchRequests_calls:
  "length (completionReadyCalls (dispatchRequests p rp deliveries)) \<le> 1
   \<and> (\<forall>items \<in> set (completionReadyCalls (dispatchRequests p rp deliveries)).
         items \<noteq> [] \<longrightarrow> length items = optN (options p))"
proof (cases "timeoutMs rp = 0")
  case True
  then show ?thesis by (simp add: dispatchRequests_def)
next
  case False
  let ?n = "optN (options p)"
  let ?st = "foldl (onCompletionReadyImpl ?n) ([], [])
                (map snd (filter (\<lambda>d. fst d < ?n) deliveries))"
  have "aggregated ?n ?st"
    by (rule aggregated_foldl) (rule aggregated_start)
  then have "length (snd ?st) \<le> 1 \<and> (\<forall>items \<in> set (snd ?st). length items = ?n)"
    by (rule aggregated_calls)
  moreover from False have "completionReadyCalls (dispatchRequests p rp deliveries) = snd ?st"
    by (simp add: dispatchRequests_def Let_def)
  ultimately show ?thesis by simp
qed

subsection \<open>Evaluation on the sample inputs\<close>

lemmas prompt_eval =
  candidate_def introOf_def nextPrompt_def createInfillingPrompt_def introString_def
  snippetIntro_def isStarCoderFamily_def isLlamaCode_def startsWith_def
  getSuffixAfterFirstNewline_def slice_def NL_def
  newFireworksProvider_def tokensToChars_def MAX_RESPONSE_TOKENS_def
  sampleExternals_def sampleOptions_def sampleSnippet_def longOptions_def

lemma longOptions_candidate_length:
  "length (candidate sampleExternals
      (newFireworksProvider sampleExternals longOptions ''starcoder-hybrid'' 2048 noTimeouts)
      [] 0) = 7221"
  by (simp add: prompt_eval)

lemma longOptions_promptChars:
  "promptChars (newFireworksProvider sampleExternals longOptions ''starcoder-hybrid'' 2048 noTimeouts) = 7168"
  by (simp add: prompt_eval)

lemma small_candidate0:
  "length (candidate sampleExternals
      (newFireworksProvider sampleExternals sampleOptions ''starcoder-hybrid'' 280 noTimeouts)
      [sampleSnippet] 0) = 71"
  by (simp add: prompt_eval)

lemma small_candidate1:
  "length (candidate sampleExternals
      (newFireworksProvider sampleExternals sampleOptions ''starcoder-hybrid'' 280 noTimeouts)
      [sampleSnippet] (Suc 0)) = 128"
  by (simp add: prompt_eval)

lemma small_promptChars:
  "promptChars (newFireworksProvider sampleExternals sampleOptions ''starcoder-hybrid'' 280 noTimeouts) = 96"
  by (simp add: prompt_eval)

lemma small_candidate0_text:
  "candidate sampleExternals
      (newFireworksProvider sampleExternals sampleOptions ''starcoder-hybrid'' 280 noTimeouts)
      [sampleSnippet] 0
   = ''<filename>a.py<fim_prefix># '' @ NL @ ''def f():'' @ NL @ ''<fim_suffix>'' @ NL
       @ ''    pass<fim_middle>''"
  by (simp add: prompt_eval)

lemma plain_candidate0:
  "candidate sampleExternals
     (newFireworksProvider sampleExternals plainOptions ''llama-code-7b'' 2048 noTimeouts) [] 0
   = ''<PRE> // '' @ NL @ ''def f():'' @ NL @ '' <SUF>'' @ NL @ ''    pass <MID>''"
  by (simp add: prompt_eval plainOptions_def)

lemma plain_promptChars:
  "promptChars (newFireworksProvider sampleExternals plainOptions ''llama-code-7b'' 2048 noTimeouts)
     = 7168"
  by (simp add: prompt_eval)

lemmas sample_request_eval =
  generateCompletions_dispatchedTimeouts resolveRequestParams_timeoutMs
  useExtendedGeneration_def timeoutsMultiline_def timeoutsSingleline_def
  newFireworksProvider_def sampleOptions_def dynOptions_def multilineOptions_def

lemma sample_optN:
  "optN (options (newFireworksProvider sampleExternals sampleOptions ''starcoder-hybrid'' 2048
       noTimeouts)) = 2"
  by (simp add: newFireworksProvider_def sampleOptions_def)

lemma sample_completionReadyCalls:
  "completionReadyCalls
     (generateCompletions sampleExternals
        (newFireworksProvider sampleExternals sampleOptions ''starcoder-hybrid'' 2048 noTimeouts)
        [] [(0, ''a''), (Suc 0, ''b''), (0, ''c'')])
   = [[''a'', ''b'']]"
  by (simp add: generateCompletions_def dispatchRequests_def resolveRequestParams_timeout_nonzero
      Let_def newFireworksProvider_def sampleOptions_def onCompletionReadyImpl_def)

subsection \<open>C1: the prompt stays within the character budget\<close>

text \<open>
  C1.  A provider is built by the \<open>create\<close> function of a provider configuration,
  which takes the context window from \<open>getMaxContextTokens\<close>.  For every such
  provider the budget \<open>promptChars\<close> is \<open>tokensToChars\<close> of the context window
  less \<open>MAX_RESPONSE_TOKENS\<close>, and for every list of snippets and every document
  the prompt returned by \<open>createPrompt\<close> is no longer than \<open>promptChars\<close>.
\<close>

theorem createPrompt_within_budget:
  assumes "createProviderConfig ext mdl tmo = Inr cfg"
  shows "promptChars (create cfg opts)
           = tokensToChars ext (getMaxContextTokens (configModel cfg) - MAX_RESPONSE_TOKENS)
         \<and> int (length (createPrompt ext (create cfg opts) snippets))
           \<le> promptChars (create cfg opts)"
proof -
  from assms obtain rm where
    cfg: "cfg = \<lparr>create = (\<lambda>opts. newFireworksProvider ext opts rm (getMaxContextTokens rm) tmo),
                contextSizeHints = standardContextSizeHints ext (getMaxContextTokens rm),
                configIdentifier = PROVIDER_IDENTIFIER, configModel = rm\<rparr>"
    by (rule createProviderConfig_Inr)
  have pc: "promptChars (create cfg opts)
              = tokensToChars ext (getMaxContextTokens (configModel cfg) - MAX_RESPONSE_TOKENS)"
    by (simp add: cfg newFireworksProvider_def)
  have "0 \<le> getMaxContextTokens rm - MAX_RESPONSE_TOKENS"
    using getMaxContextTokens_ge [of rm] by simp
  then have "0 \<le> tokensToChars ext (getMaxContextTokens rm - MAX_RESPONSE_TOKENS)"
    by (simp add: tokensToChars_def)
  moreover have "promptChars (create cfg opts)
      = tokensToChars ext (getMaxContextTokens rm - MAX_RESPONSE_TOKENS)"
    by (simp add: cfg newFireworksProvider_def)
  ultimately have "0 \<le> promptChars (create cfg opts)"
    by simp
  then have "int (length (createPrompt ext (create cfg opts) snippets))
           \<le> promptChars (create cfg opts)"
    by (rule createPrompt_bound)
  with pc show ?thesis by simp
qed

theorem createPrompt_within_budget_witness:
  "createProviderConfig sampleExternals None noTimeouts = Inr sampleConfig
   \<and> promptChars (create sampleConfig sampleOptions) = 7168
   \<and> int (length (createPrompt sampleExternals (create sampleConfig sampleOptions)
                     [sampleSnippet])) \<le> 7168"
  using createPrompt_within_budget [OF sampleConfig_created, of sampleOptions "[sampleSnippet]"]
    sampleConfig_created
  by (simp add: sampleConfig_def newFireworksProvider_def tokensToChars_def
      sampleExternals_def MAX_RESPONSE_TOKENS_def)

subsection \<open>C2: what the prompt loop returns\<close>

text \<open>
  As stated, C2 has the candidate with no snippets returned even when it does not fit.
  The loop returns the variable \<open>prompt\<close>, which is still the empty string then: with
  the default model and a prefix of 7168 characters the candidate has 7221 characters,
  the budget is 7168, and the result is the empty string, not the candidate.
\<close>

theorem createPrompt_zero_candidate_counterexample:
  "promptChars (newFireworksProvider sampleExternals longOptions ''starcoder-hybrid'' 2048 noTimeouts)
     \<le> int (length (candidate sampleExternals
          (newFireworksProvider sampleExternals longOptions ''starcoder-hybrid'' 2048 noTimeouts)
          [] 0))
   \<and> createPrompt sampleExternals
        (newFireworksProvider sampleExternals longOptions ''starcoder-hybrid'' 2048 noTimeouts) []
      = []
   \<and> createPrompt sampleExternals
        (newFireworksProvider sampleExternals longOptions ''starcoder-hybrid'' 2048 noTimeouts) []
      \<noteq> candidate sampleExternals
          (newFireworksProvider sampleExternals longOptions ''starcoder-hybrid'' 2048 noTimeouts)
          [] 0"
proof -
  let ?p = "newFireworksProvider sampleExternals longOptions ''starcoder-hybrid'' 2048 noTimeouts"
  have a: "promptChars ?p \<le> int (length (candidate sampleExternals ?p [] 0))"
    by (simp add: longOptions_candidate_length longOptions_promptChars)
  then have b: "createPrompt sampleExternals ?p [] = []"
    by (rule createPrompt_none_fits)
  have "candidate sampleExternals ?p [] 0 \<noteq> []"
    using longOptions_candidate_length by auto
  with a b show ?thesis by simp
qed

text \<open>
  C2, amended.  If the candidate prompt built with no snippets meets or exceeds the
  character budget, \<open>createPrompt\<close> returns the empty string.  Otherwise it returns
  the last candidate that fit: the candidate with \<open>k\<close> snippets, when the candidates
  with \<open>0\<close> to \<open>k\<close> snippets are all below the budget and either \<open>k\<close> is the
  number of snippets or the candidate with \<open>k + 1\<close> snippets meets or exceeds the
  budget.
\<close>

theorem createPrompt_result:
  "(promptChars p \<le> int (length (candidate ext p snippets 0)) \<longrightarrow>
      createPrompt ext p snippets = [])
   \<and> (k \<le> length snippets
        \<and> (\<forall>j\<le>k. int (length (candidate ext p snippets j)) < promptChars p)
        \<and> (k < length snippets \<longrightarrow>
              promptChars p \<le> int (length (candidate ext p snippets (Suc k)))) \<longrightarrow>
      createPrompt ext p snippets = candidate ext p snippets k)"
proof (intro conjI impI)
  assume "promptChars p \<le> int (length (candidate ext p snippets 0))"
  then show "createPrompt ext p snippets = []" by (rule createPrompt_none_fits)
next
  assume h: "k \<le> length snippets
        \<and> (\<forall>j\<le>k. int (length (candidate ext p snippets j)) < promptChars p)
        \<and> (k < length snippets \<longrightarrow>
              promptChars p \<le> int (length (candidate ext p snippets (Suc k))))"
  show "createPrompt ext p snippets = candidate ext p snippets k"
    using h by (intro createPrompt_last_fit) simp_all
qed

theorem createPrompt_result_witness:
  "promptChars (newFireworksProvider sampleExternals longOptions ''starcoder-hybrid'' 2048 noTimeouts)
     \<le> int (length (candidate sampleExternals
          (newFireworksProvider sampleExternals longOptions ''starcoder-hybrid'' 2048 noTimeouts)
          [] 0))
   \<and> createPrompt sampleExternals
        (newFireworksProvider sampleExternals longOptions ''starcoder-hybrid'' 2048 noTimeouts) []
      = []
   \<and> int (length (candidate sampleExternals
          (newFireworksProvider sampleExternals sampleOptions ''starcoder-hybrid'' 280 noTimeouts)
          [sampleSnippet] 0))
      < promptChars
          (newFireworksProvider sampleExternals sampleOptions ''starcoder-hybrid'' 280 noTimeouts)
   \<and> promptChars
          (newFireworksProvider sampleExternals sampleOptions ''starcoder-hybrid'' 280 noTimeouts)
      \<le> int (length (candidate sampleExternals
          (newFireworksProvider sampleExternals sampleOptions ''starcoder-hybrid'' 280 noTimeouts)
          [sampleSnippet] (Suc 0)))
   \<and> createPrompt sampleExternals
        (newFireworksProvider sampleExternals sampleOptions ''starcoder-hybrid'' 280 noTimeouts)
        [sampleSnippet]
      = ''<filename>a.py<fim_prefix># '' @ NL @ ''def f():'' @ NL @ ''<fim_suffix>'' @ NL
          @ ''    pass<fim_middle>''"
  using createPrompt_result
      [of "newFireworksProvider sampleExternals longOptions ''starcoder-hybrid'' 2048 noTimeouts"
          sampleExternals "[]" 0]
    createPrompt_result
      [of "newFireworksProvider sampleExternals sampleOptions ''starcoder-hybrid'' 280 noTimeouts"
          sampleExternals "[sampleSnippet]" 0]
  by (simp add: longOptions_candidate_length longOptions_promptChars small_candidate0
      small_candidate1 small_promptChars small_candidate0_text NL_def)

subsection \<open>C3: the caller receives all samples or none\<close>

text \<open>
  C3.  For every call of \<open>generateCompletions\<close> with \<open>n\<close> samples, and every
  sequence in which the fetches deliver their items, the caller's \<open>onCompletionReady\<close>
  is called at most once, and a non-empty list it is called with has exactly \<open>n\<close>
  items.  (The list is the \<open>completions\<close> array itself, measured at the moment of the
  call.)
\<close>

theorem onCompletionReady_all_or_nothing:
  "length (completionReadyCalls (generateCompletions ext p snippets deliveries)) \<le> 1
   \<and> (\<forall>items \<in> set (completionReadyCalls (generateCompletions ext p snippets deliveries)).
         items \<noteq> [] \<longrightarrow> length items = optN (options p))"
  unfolding generateCompletions_def by (rule dispatchRequests_calls)

theorem onCompletionReady_all_or_nothing_witness:
  "optN (options (newFireworksProvider sampleExternals sampleOptions ''starcoder-hybrid'' 2048
       noTimeouts)) = 2
   \<and> length (completionReadyCalls
     (generateCompletions sampleExternals
        (newFireworksProvider sampleExternals sampleOptions ''starcoder-hybrid'' 2048 noTimeouts)
        [] [(0, ''a''), (Suc 0, ''b''), (0, ''c'')])) \<le> 1
   \<and> completionReadyCalls
     (generateCompletions sampleExternals
        (newFireworksProvider sampleExternals sampleOptions ''starcoder-hybrid'' 2048 noTimeouts)
        [] [(0, ''a''), (Suc 0, ''b''), (0, ''c'')])
     = [[''a'', ''b'']]
   \<and> length [''a'', ''b''] = 2"
  using onCompletionReady_all_or_nothing
    [of sampleExternals
        "newFireworksProvider sampleExternals sampleOptions ''starcoder-hybrid'' 2048 noTimeouts"
        "[]" "[(0, ''a''), (Suc 0, ''b''), (0, ''c'')]"]
  by (simp add: sample_completionReadyCalls sample_optN)

subsection \<open>C4: a timeout of zero\<close>

text \<open>
  C4 says that a request whose resolved timeout is exactly zero ends with one call of
  \<open>onCompletionReady\<close> on the empty list and no fetch.  \<open>generateCompletions\<close> has
  the test for it, but never takes it: the presets are 5000 and 15000, and an override
  is applied only when its value is truthy, so a configured zero is skipped.  For every
  provider, snippet list and delivery sequence the resolved \<open>timeoutMs\<close> is not zero
  and the outcome is not the short circuit.  With a singleline timeout of zero
  configured, single-line mode and two samples, two fetches are started with
  \<open>timeoutMs\<close> 5000, and \<open>onCompletionReady\<close> is called with the two delivered items
  instead of the empty list.
\<close>

theorem configured_zero_timeout_dispatches:
  "timeoutMs (resolveRequestParams ext p snippets) \<noteq> 0
   \<and> generateCompletions ext p snippets deliveries
       \<noteq> \<lparr>tracedParams = None, fetches = [], completionReadyCalls = [[]]\<rparr>
   \<and> timeoutsSingleline (newFireworksProvider sampleExternals sampleOptions ''starcoder-hybrid''
        2048 \<lparr>multilineTimeout = None, singlelineTimeout = Some 0\<rparr>) = Some 0
   \<and> \<not> useExtendedGeneration (newFireworksProvider sampleExternals sampleOptions
        ''starcoder-hybrid'' 2048 \<lparr>multilineTimeout = None, singlelineTimeout = Some 0\<rparr>)
   \<and> dispatchedTimeouts (generateCompletions sampleExternals
        (newFireworksProvider sampleExternals sampleOptions ''starcoder-hybrid'' 2048
           \<lparr>multilineTimeout = None, singlelineTimeout = Some 0\<rparr>)
        [] [(0, ''a''), (Suc 0, ''b'')]) = [5000, 5000]
   \<and> completionReadyCalls (generateCompletions sampleExternals
        (newFireworksProvider sampleExternals sampleOptions ''starcoder-hybrid'' 2048
           \<lparr>multilineTimeout = None, singlelineTimeout = Some 0\<rparr>)
        [] [(0, ''a''), (Suc 0, ''b'')]) = [[''a'', ''b'']]"
proof -
  let ?p = "newFireworksProvider sampleExternals sampleOptions ''starcoder-hybrid'' 2048
           \<lparr>multilineTimeout = None, singlelineTimeout = Some 0\<rparr>"
  have nz: "timeoutMs (resolveRequestParams ext p snippets) \<noteq> 0"
    by (rule resolveRequestParams_timeout_nonzero)
  have "tracedParams (generateCompletions ext p snippets deliveries) \<noteq> None"
    by (simp add: generateCompletions_def dispatchRequests_def Let_def nz)
  then have ne: "generateCompletions ext p snippets deliveries
       \<noteq> \<lparr>tracedParams = None, fetches = [], completionReadyCalls = [[]]\<rparr>"
    by auto
  have cfg: "timeoutsSingleline ?p = Some 0 \<and> \<not> useExtendedGeneration ?p"
    by (simp add: sample_request_eval)
  have tm: "dispatchedTimeouts (generateCompletions sampleExternals ?p []
        [(0, ''a''), (Suc 0, ''b'')]) = [5000, 5000]"
    by (simp add: sample_request_eval numeral_2_eq_2)
  have calls: "completionReadyCalls (generateCompletions sampleExternals ?p []
        [(0, ''a''), (Suc 0, ''b'')]) = [[''a'', ''b'']]"
    by (simp add: generateCompletions_def dispatchRequests_def
        resolveRequestParams_timeout_nonzero Let_def newFireworksProvider_def
        sampleOptions_def onCompletionReadyImpl_def)
  from nz ne cfg tm calls show ?thesis by simp
qed

subsection \<open>C5: resolving the model of a configuration\<close>

text \<open>
  C5.  \<open>createProviderConfig\<close> resolves \<open>null\<close> and the empty string to
  \<open>starcoder-hybrid\<close>, resolves a key of \<open>MODEL_MAP\<close> to itself, and for any other
  string that is neither empty nor \<open>starcoder-hybrid\<close> fails with an error whose
  message names the string.
\<close>

theorem createProviderConfig_model:
  "((mdl = None \<or> mdl = Some []) \<longrightarrow>
      (\<exists>cfg. createProviderConfig ext mdl tmo = Inr cfg \<and> configModel cfg = ''starcoder-hybrid''))
   \<and> (m \<in> fst ` set MODEL_MAP \<longrightarrow>
      (\<exists>cfg. createProviderConfig ext (Some m) tmo = Inr cfg \<and> configModel cfg = m))
   \<and> (m \<noteq> [] \<and> m \<noteq> ''starcoder-hybrid'' \<and> m \<notin> fst ` set MODEL_MAP \<longrightarrow>
      createProviderConfig ext (Some m) tmo = Inl (Error (''Unknown model: `'' @ m @ ''`'')))"
proof (intro conjI impI)
  assume "mdl = None \<or> mdl = Some []"
  then show "\<exists>cfg. createProviderConfig ext mdl tmo = Inr cfg \<and> configModel cfg = ''starcoder-hybrid''"
    by (auto simp: createProviderConfig_def resolvedModel_def Let_def)
next
  assume k: "m \<in> fst ` set MODEL_MAP"
  then have "map_of MODEL_MAP m \<noteq> None" by (simp add: map_of_eq_None_iff)
  moreover from k have "m \<noteq> []" by (auto simp: MODEL_MAP_def)
  ultimately have "resolvedModel (Some m) = Some m"
    by (simp add: resolvedModel_def)
  then show "\<exists>cfg. createProviderConfig ext (Some m) tmo = Inr cfg \<and> configModel cfg = m"
    by (simp add: createProviderConfig_def Let_def)
next
  assume u: "m \<noteq> [] \<and> m \<noteq> ''starcoder-hybrid'' \<and> m \<notin> fst ` set MODEL_MAP"
  then have "map_of MODEL_MAP m = None" by (simp add: map_of_eq_None_iff)
  with u have "resolvedModel (Some m) = None"
    by (simp add: resolvedModel_def)
  then show "createProviderConfig ext (Some m) tmo = Inl (Error (''Unknown model: `'' @ m @ ''`''))"
    by (simp add: createProviderConfig_def)
qed

theorem createProviderConfig_model_witness:
  "(\<exists>cfg. createProviderConfig sampleExternals None noTimeouts = Inr cfg
          \<and> configModel cfg = ''starcoder-hybrid'')
   \<and> (\<exists>cfg. createProviderConfig sampleExternals (Some []) noTimeouts = Inr cfg
          \<and> configModel cfg = ''starcoder-hybrid'')
   \<and> ''llama-code-13b'' \<in> fst ` set MODEL_MAP
   \<and> (\<exists>cfg. createProviderConfig sampleExternals (Some ''llama-code-13b'') noTimeouts = Inr cfg
          \<and> configModel cfg = ''llama-code-13b'')
   \<and> ''gpt-4'' \<notin> fst ` set MODEL_MAP
   \<and> createProviderConfig sampleExternals (Some ''gpt-4'') noTimeouts
       = Inl (Error ''Unknown model: `gpt-4`'')"
  using createProviderConfig_model [of None sampleExternals noTimeouts "''llama-code-13b''"]
    createProviderConfig_model [of "Some []" sampleExternals noTimeouts "''gpt-4''"]
  by (simp add: MODEL_MAP_def)

subsection \<open>C6: the timeout overrides\<close>

text \<open>
  As stated, C6 has a configured multiline timeout become the \<open>timeoutMs\<close> of the
  dispatched requests whenever extended generation is active, for every value.  With
  \<open>dynamicMultilineCompletions\<close> on, the dynamic-multiline arguments are assigned over
  the request parameters after the override, and a configured 2000 is dispatched as
  15000.  A configured value of zero is not applied either: the requests go out with
  the preset 15000.
\<close>

theorem timeout_overrides_counterexample:
  "timeoutsMultiline (newFireworksProvider sampleExternals dynOptions ''starcoder-hybrid'' 2048
      \<lparr>multilineTimeout = Some 2000, singlelineTimeout = None\<rparr>) = Some 2000
   \<and> useExtendedGeneration (newFireworksProvider sampleExternals dynOptions ''starcoder-hybrid''
      2048 \<lparr>multilineTimeout = Some 2000, singlelineTimeout = None\<rparr>)
   \<and> dispatchedTimeouts (generateCompletions sampleExternals
        (newFireworksProvider sampleExternals dynOptions ''starcoder-hybrid'' 2048
           \<lparr>multilineTimeout = Some 2000, singlelineTimeout = None\<rparr>)
        [] [(0, ''a'')]) = [15000, 15000]
   \<and> timeoutsMultiline (newFireworksProvider sampleExternals multilineOptions ''starcoder-hybrid''
      2048 \<lparr>multilineTimeout = Some 0, singlelineTimeout = None\<rparr>) = Some 0
   \<and> useExtendedGeneration (newFireworksProvider sampleExternals multilineOptions
      ''starcoder-hybrid'' 2048 \<lparr>multilineTimeout = Some 0, singlelineTimeout = None\<rparr>)
   \<and> dispatchedTimeouts (generateCompletions sampleExternals
        (newFireworksProvider sampleExternals multilineOptions ''starcoder-hybrid'' 2048
           \<lparr>multilineTimeout = Some 0, singlelineTimeout = None\<rparr>)
        [] [(0, ''a'')]) = [15000, 15000]"
  by (simp add: sample_request_eval numeral_2_eq_2)

text \<open>
  C6, amended.  For every configured timeout value other than zero: a configured
  multiline timeout is the \<open>timeoutMs\<close> of every dispatched request whenever extended
  generation is active and \<open>dynamicMultilineCompletions\<close> is off; a configured
  singleline timeout is the \<open>timeoutMs\<close> of every dispatched request whenever
  extended generation is not active.  Each override has no effect in the other mode:
  with extended generation active the outcome is the same for every singleline
  timeout, and without it the outcome is the same for every multiline timeout.
\<close>

theorem timeout_overrides:
  "(timeoutsMultiline p = Some v \<and> v \<noteq> 0 \<and> useExtendedGeneration p
      \<and> \<not> dynamicMultilineCompletions (options p) \<longrightarrow>
      dispatchedTimeouts (generateCompletions ext p snippets deliveries)
        = replicate (optN (options p)) v)
   \<and> (timeoutsSingleline p = Some v \<and> v \<noteq> 0 \<and> \<not> useExtendedGeneration p \<longrightarrow>
      dispatchedTimeouts (generateCompletions ext p snippets deliveries)
        = replicate (optN (options p)) v)
   \<and> (timeouts p = Some t \<and> useExtendedGeneration p \<longrightarrow>
      generateCompletions ext (p\<lparr>timeouts := Some (t\<lparr>singlelineTimeout := x\<rparr>)\<rparr>) snippets deliveries
        = generateCompletions ext p snippets deliveries)
   \<and> (timeouts p = Some t \<and> \<not> useExtendedGeneration p \<longrightarrow>
      generateCompletions ext (p\<lparr>timeouts := Some (t\<lparr>multilineTimeout := x\<rparr>)\<rparr>) snippets deliveries
        = generateCompletions ext p snippets deliveries)"
proof (intro conjI impI)
  assume "timeoutsMultiline p = Some v \<and> v \<noteq> 0 \<and> useExtendedGeneration p
      \<and> \<not> dynamicMultilineCompletions (options p)"
  then show "dispatchedTimeouts (generateCompletions ext p snippets deliveries)
        = replicate (optN (options p)) v"
    by (simp add: generateCompletions_dispatchedTimeouts resolveRequestParams_timeoutMs)
next
  assume h: "timeoutsSingleline p = Some v \<and> v \<noteq> 0 \<and> \<not> useExtendedGeneration p"
  then have "\<not> dynamicMultilineCompletions (options p)"
    by (simp add: useExtendedGeneration_def)
  with h show "dispatchedTimeouts (generateCompletions ext p snippets deliveries)
        = replicate (optN (options p)) v"
    by (simp add: generateCompletions_dispatchedTimeouts resolveRequestParams_timeoutMs)
next
  assume h: "timeouts p = Some t \<and> useExtendedGeneration p"
  then have "timeoutsMultiline (p\<lparr>timeouts := Some (t\<lparr>singlelineTimeout := x\<rparr>)\<rparr>)
               = timeoutsMultiline p"
    by (simp add: timeoutsMultiline_def)
  with h have "resolveRequestParams ext (p\<lparr>timeouts := Some (t\<lparr>singlelineTimeout := x\<rparr>)\<rparr>) snippets
               = resolveRequestParams ext p snippets"
    by (simp add: resolveRequestParams_extended)
  then show "generateCompletions ext (p\<lparr>timeouts := Some (t\<lparr>singlelineTimeout := x\<rparr>)\<rparr>) snippets deliveries
        = generateCompletions ext p snippets deliveries"
    by (simp add: generateCompletions_def)
next
  assume h: "timeouts p = Some t \<and> \<not> useExtendedGeneration p"
  then have "timeoutsSingleline (p\<lparr>timeouts := Some (t\<lparr>multilineTimeout := x\<rparr>)\<rparr>)
               = timeoutsSingleline p"
    by (simp add: timeoutsSingleline_def)
  with h have "resolveRequestParams ext (p\<lparr>timeouts := Some (t\<lparr>multilineTimeout := x\<rparr>)\<rparr>) snippets
               = resolveRequestParams ext p snippets"
    by (simp add: resolveRequestParams_single)
  then show "generateCompletions ext (p\<lparr>timeouts := Some (t\<lparr>multilineTimeout := x\<rparr>)\<rparr>) snippets deliveries
        = generateCompletions ext p snippets deliveries"
    by (simp add: generateCompletions_def)
qed

theorem timeout_overrides_witness:
  "timeoutsMultiline (newFireworksProvider sampleExternals multilineOptions ''starcoder-hybrid''
      2048 \<lparr>multilineTimeout = Some 2000, singlelineTimeout = Some 700\<rparr>) = Some 2000
   \<and> useExtendedGeneration (newFireworksProvider sampleExternals multilineOptions
      ''starcoder-hybrid'' 2048 \<lparr>multilineTimeout = Some 2000, singlelineTimeout = Some 700\<rparr>)
   \<and> \<not> dynamicMultilineCompletions (options (newFireworksProvider sampleExternals multilineOptions
      ''starcoder-hybrid'' 2048 \<lparr>multilineTimeout = Some 2000, singlelineTimeout = Some 700\<rparr>))
   \<and> dispatchedTimeouts (generateCompletions sampleExternals
        (newFireworksProvider sampleExternals multilineOptions ''starcoder-hybrid'' 2048
           \<lparr>multilineTimeout = Some 2000, singlelineTimeout = Some 700\<rparr>)
        [] [(0, ''a'')]) = [2000, 2000]
   \<and> timeoutsSingleline (newFireworksProvider sampleExternals sampleOptions ''starcoder-hybrid''
      2048 \<lparr>multilineTimeout = Some 2000, singlelineTimeout = Some 700\<rparr>) = Some 700
   \<and> \<not> useExtendedGeneration (newFireworksProvider sampleExternals sampleOptions
      ''starcoder-hybrid'' 2048 \<lparr>multilineTimeout = Some 2000, singlelineTimeout = Some 700\<rparr>)
   \<and> dispatchedTimeouts (generateCompletions sampleExternals
        (newFireworksProvider sampleExternals sampleOptions ''starcoder-hybrid'' 2048
           \<lparr>multilineTimeout = Some 2000, singlelineTimeout = Some 700\<rparr>)
        [] [(0, ''a'')]) = [700, 700]
   \<and> generateCompletions sampleExternals
        (newFireworksProvider sampleExternals multilineOptions ''starcoder-hybrid'' 2048
           \<lparr>multilineTimeout = Some 2000, singlelineTimeout = Some 1\<rparr>)
        [] [(0, ''a'')]
      = generateCompletions sampleExternals
        (newFireworksProvider sampleExternals multilineOptions ''starcoder-hybrid'' 2048
           \<lparr>multilineTimeout = Some 2000, singlelineTimeout = Some 700\<rparr>)
        [] [(0, ''a'')]
   \<and> generateCompletions sampleExternals
        (newFireworksProvider sampleExternals sampleOptions ''starcoder-hybrid'' 2048
           \<lparr>multilineTimeout = Some 1, singlelineTimeout = Some 700\<rparr>)
        [] [(0, ''a'')]
      = generateCompletions sampleExternals
        (newFireworksProvider sampleExternals sampleOptions ''starcoder-hybrid'' 2048
           \<lparr>multilineTimeout = Some 2000, singlelineTimeout = Some 700\<rparr>)
        [] [(0, ''a'')]"
proof -
  let ?t = "\<lparr>multilineTimeout = Some 2000, singlelineTimeout = Some 700\<rparr>"
  let ?pm = "newFireworksProvider sampleExternals multilineOptions ''starcoder-hybrid'' 2048 ?t"
  let ?ps = "newFireworksProvider sampleExternals sampleOptions ''starcoder-hybrid'' 2048 ?t"
  have hm: "timeoutsMultiline ?pm = Some 2000 \<and> useExtendedGeneration ?pm
      \<and> \<not> dynamicMultilineCompletions (options ?pm) \<and> timeouts ?pm = Some ?t"
    by (simp add: sample_request_eval)
  have hs: "timeoutsSingleline ?ps = Some 700 \<and> \<not> useExtendedGeneration ?ps
      \<and> timeouts ?ps = Some ?t"
    by (simp add: sample_request_eval)
  have um: "?pm\<lparr>timeouts := Some (?t\<lparr>singlelineTimeout := Some 1\<rparr>)\<rparr>
      = newFireworksProvider sampleExternals multilineOptions ''starcoder-hybrid'' 2048
           \<lparr>multilineTimeout = Some 2000, singlelineTimeout = Some 1\<rparr>"
    by (simp add: newFireworksProvider_def)
  have us: "?ps\<lparr>timeouts := Some (?t\<lparr>multilineTimeout := Some 1\<rparr>)\<rparr>
      = newFireworksProvider sampleExternals sampleOptions ''starcoder-hybrid'' 2048
           \<lparr>multilineTimeout = Some 1, singlelineTimeout = Some 700\<rparr>"
    by (simp add: newFireworksProvider_def)
  have om: "optN (options ?pm) = 2" and os: "optN (options ?ps) = 2"
    by (simp_all add: sample_request_eval)
  note m = timeout_overrides [where p = ?pm and v = 2000 and ext = sampleExternals
      and snippets = "[]" and deliveries = "[(0, ''a'')]" and t = ?t and x = "Some 1"]
  note s = timeout_overrides [where p = ?ps and v = 700 and ext = sampleExternals
      and snippets = "[]" and deliveries = "[(0, ''a'')]" and t = ?t and x = "Some 1"]
  from m hm have m1: "dispatchedTimeouts (generateCompletions sampleExternals ?pm [] [(0, ''a'')])
      = replicate (optN (options ?pm)) 2000" by simp
  from m hm have m2: "generateCompletions sampleExternals
        (?pm\<lparr>timeouts := Some (?t\<lparr>singlelineTimeout := Some 1\<rparr>)\<rparr>) [] [(0, ''a'')]
      = generateCompletions sampleExternals ?pm [] [(0, ''a'')]" by simp
  from s hs have s1: "dispatchedTimeouts (generateCompletions sampleExternals ?ps [] [(0, ''a'')])
      = replicate (optN (options ?ps)) 700" by simp
  from s hs have s2: "generateCompletions sampleExternals
        (?ps\<lparr>timeouts := Some (?t\<lparr>multilineTimeout := Some 1\<rparr>)\<rparr>) [] [(0, ''a'')]
      = generateCompletions sampleExternals ?ps [] [(0, ''a'')]" by simp
  from m1 om have m1': "dispatchedTimeouts (generateCompletions sampleExternals ?pm [] [(0, ''a'')])
      = [2000, 2000]" by (simp add: numeral_2_eq_2)
  from s1 os have s1': "dispatchedTimeouts (generateCompletions sampleExternals ?ps [] [(0, ''a'')])
      = [700, 700]" by (simp add: numeral_2_eq_2)
  from hm hs m1' s1' m2 s2 um us show ?thesis by simp
qed

subsection \<open>C7: intro lines as comments\<close>

text \<open>
  C7 says that a line of the intro keeps its content behind the comment marker, with
  the marker \<open>// \<close> when the language has no profile.  Without a profile the comment
  function returns the bare marker: every line of the intro becomes \<open>// \<close> and its
  content is dropped.  For the model \<open>llama-code-7b\<close> and a plain-text file
  \<open>notes.txt\<close> the intro is the single line \<open>Path: notes.txt\<close>, and the prompt
  carries \<open>// \<close> in its place.
\<close>

theorem introString_without_profile:
  "introString None intro
     = join (replicate (length (split (join intro (NL @ NL)) (CHR 0x0A))) ''// '') NL @ NL
   \<and> introOf (newFireworksProvider sampleExternals plainOptions ''llama-code-7b'' 2048 noTimeouts)
        [] 0 = [''Path: notes.txt'']
   \<and> createPrompt sampleExternals
        (newFireworksProvider sampleExternals plainOptions ''llama-code-7b'' 2048 noTimeouts) []
      = ''<PRE> // '' @ NL @ ''def f():'' @ NL @ '' <SUF>'' @ NL @ ''    pass <MID>''"
proof -
  let ?p = "newFireworksProvider sampleExternals plainOptions ''llama-code-7b'' 2048 noTimeouts"
  have a: "introString None intro
     = join (replicate (length (split (join intro (NL @ NL)) (CHR 0x0A))) ''// '') NL @ NL"
    by (simp add: introString_def map_replicate_const)
  have b: "introOf ?p [] 0 = [''Path: notes.txt'']"
    by (simp add: prompt_eval plainOptions_def)
  have "createPrompt sampleExternals ?p [] = candidate sampleExternals ?p [] 0"
    by (rule createPrompt_last_fit) (simp_all add: plain_candidate0 plain_promptChars NL_def)
  with a b show ?thesis by (simp add: plain_candidate0)
qed

subsection \<open>C8: the hybrid model and the multi-line preset\<close>

text \<open>
  As stated, C8 has \<open>timeoutMs\<close> equal to 15000 whenever extended generation is
  active and dynamic multiline is off.  A configured multiline timeout replaces the
  preset: with 2000 configured the requests are dispatched with 2000.
\<close>

theorem hybrid_request_counterexample:
  "model (newFireworksProvider sampleExternals multilineOptions ''starcoder-hybrid'' 2048
      \<lparr>multilineTimeout = Some 2000, singlelineTimeout = None\<rparr>) = ''starcoder-hybrid''
   \<and> useExtendedGeneration (newFireworksProvider sampleExternals multilineOptions
      ''starcoder-hybrid'' 2048 \<lparr>multilineTimeout = Some 2000, singlelineTimeout = None\<rparr>)
   \<and> \<not> dynamicMultilineCompletions (options (newFireworksProvider sampleExternals
      multilineOptions ''starcoder-hybrid'' 2048
      \<lparr>multilineTimeout = Some 2000, singlelineTimeout = None\<rparr>))
   \<and> dispatchedTimeouts (generateCompletions sampleExternals
        (newFireworksProvider sampleExternals multilineOptions ''starcoder-hybrid'' 2048
           \<lparr>multilineTimeout = Some 2000, singlelineTimeout = None\<rparr>)
        [] [(0, ''a'')]) = [2000, 2000]"
  by (simp add: sample_request_eval numeral_2_eq_2)

text \<open>
  C8, amended.  For the model \<open>starcoder-hybrid\<close>, \<open>generateCompletions\<close> starts
  \<open>n\<close> fetches, each with the model that \<open>MODEL_MAP\<close> gives for \<open>starcoder-16b\<close>
  when \<open>multiline\<close> is true and for \<open>starcoder-7b\<close> otherwise; when extended
  generation is active and dynamic multiline is off, each request has
  \<open>maxTokensToSample\<close> 256 and the stop sequences of two line feeds and of line
  feed, carriage return, line feed, and has \<open>timeoutMs\<close> 15000 when no multiline
  timeout is configured.
\<close>

theorem hybrid_request:
  "model p = ''starcoder-hybrid'' \<longrightarrow>
     length (fetches (generateCompletions ext p snippets deliveries)) = optN (options p)
     \<and> (\<forall>f \<in> set (fetches (generateCompletions ext p snippets deliveries)).
          requestModel (requestParams f)
            = Some (if multiline (options p) then ''fireworks/starcoder-16b''
                    else ''fireworks/starcoder-7b'')
          \<and> (useExtendedGeneration p \<and> \<not> dynamicMultilineCompletions (options p) \<longrightarrow>
                maxTokensToSample (requestParams f) = 256
                \<and> stopSequences (requestParams f) = Some [NL @ NL, NL @ [CHR 0x0D] @ NL]
                \<and> (timeoutsMultiline p = None \<longrightarrow> timeoutMs (requestParams f) = 15000)))"
proof
  assume h: "model p = ''starcoder-hybrid''"
  have len: "length (fetches (generateCompletions ext p snippets deliveries)) = optN (options p)"
    by (simp add: generateCompletions_fetches)
  have "requestModel (requestParams f)
            = Some (if multiline (options p) then ''fireworks/starcoder-16b''
                    else ''fireworks/starcoder-7b'')
          \<and> (useExtendedGeneration p \<and> \<not> dynamicMultilineCompletions (options p) \<longrightarrow>
                maxTokensToSample (requestParams f) = 256
                \<and> stopSequences (requestParams f) = Some [NL @ NL, NL @ [CHR 0x0D] @ NL]
                \<and> (timeoutsMultiline p = None \<longrightarrow> timeoutMs (requestParams f) = 15000))"
    if f: "f \<in> set (fetches (generateCompletions ext p snippets deliveries))" for f
  proof (cases "useExtendedGeneration p")
    case True
    from f show ?thesis
      by (auto simp: generateCompletions_fetches resolveRequestParams_extended [OF True]
          effectiveModel_hybrid [OF h] split: if_splits)
  next
    case False
    from f show ?thesis
      by (auto simp: generateCompletions_fetches resolveRequestParams_single [OF False] False
          effectiveModel_hybrid [OF h] split: if_splits)
  qed
  with len show "length (fetches (generateCompletions ext p snippets deliveries)) = optN (options p)
     \<and> (\<forall>f \<in> set (fetches (generateCompletions ext p snippets deliveries)).
          requestModel (requestParams f)
            = Some (if multiline (options p) then ''fireworks/starcoder-16b''
                    else ''fireworks/starcoder-7b'')
          \<and> (useExtendedGeneration p \<and> \<not> dynamicMultilineCompletions (options p) \<longrightarrow>
                maxTokensToSample (requestParams f) = 256
                \<and> stopSequences (requestParams f) = Some [NL @ NL, NL @ [CHR 0x0D] @ NL]
                \<and> (timeoutsMultiline p = None \<longrightarrow> timeoutMs (requestParams f) = 15000)))"
    by blast
qed

theorem hybrid_request_witness:
  "model (newFireworksProvider sampleExternals multilineOptions ''starcoder-hybrid'' 2048
      noTimeouts) = ''starcoder-hybrid''
   \<and> useExtendedGeneration (newFireworksProvider sampleExternals multilineOptions
        ''starcoder-hybrid'' 2048 noTimeouts)
   \<and> \<not> dynamicMultilineCompletions (options (newFireworksProvider sampleExternals
        multilineOptions ''starcoder-hybrid'' 2048 noTimeouts))
   \<and> timeoutsMultiline (newFireworksProvider sampleExternals multilineOptions
        ''starcoder-hybrid'' 2048 noTimeouts) = None
   \<and> length (fetches (generateCompletions sampleExternals
        (newFireworksProvider sampleExternals multilineOptions ''starcoder-hybrid'' 2048 noTimeouts)
        [] [(0, ''a'')])) = 2
   \<and> map (\<lambda>f. requestModel (requestParams f)) (fetches (generateCompletions sampleExternals
        (newFireworksProvider sampleExternals multilineOptions ''starcoder-hybrid'' 2048 noTimeouts)
        [] [(0, ''a'')]))
      = [Some ''fireworks/starcoder-16b'', Some ''fireworks/starcoder-16b'']
   \<and> map (\<lambda>f. maxTokensToSample (requestParams f)) (fetches (generateCompletions sampleExternals
        (newFireworksProvider sampleExternals multilineOptions ''starcoder-hybrid'' 2048 noTimeouts)
        [] [(0, ''a'')]))
      = [256, 256]
   \<and> map (\<lambda>f. stopSequences (requestParams f)) (fetches (generateCompletions sampleExternals
        (newFireworksProvider sampleExternals multilineOptions ''starcoder-hybrid'' 2048 noTimeouts)
        [] [(0, ''a'')]))
      = [Some [NL @ NL, NL @ [CHR 0x0D] @ NL], Some [NL @ NL, NL @ [CHR 0x0D] @ NL]]
   \<and> map (\<lambda>f. timeoutMs (requestParams f)) (fetches (generateCompletions sampleExternals
        (newFireworksProvider sampleExternals multilineOptions ''starcoder-hybrid'' 2048 noTimeouts)
        [] [(0, ''a'')]))
      = [15000, 15000]"
proof -
  let ?p = "newFireworksProvider sampleExternals multilineOptions ''starcoder-hybrid'' 2048
      noTimeouts"
  let ?out = "generateCompletions sampleExternals ?p [] [(0, ''a'')]"
  have h: "model ?p = ''starcoder-hybrid'' \<and> useExtendedGeneration ?p
      \<and> \<not> dynamicMultilineCompletions (options ?p) \<and> timeoutsMultiline ?p = None
      \<and> multiline (options ?p) \<and> optN (options ?p) = 2"
    by (simp add: sample_request_eval noTimeouts_def)
  from hybrid_request [of ?p sampleExternals "[]" "[(0, ''a'')]"] h
  have len: "length (fetches ?out) = 2"
    and all: "\<forall>f \<in> set (fetches ?out).
          requestModel (requestParams f) = Some ''fireworks/starcoder-16b''
          \<and> maxTokensToSample (requestParams f) = 256
          \<and> stopSequences (requestParams f) = Some [NL @ NL, NL @ [CHR 0x0D] @ NL]
          \<and> timeoutMs (requestParams f) = 15000"
    by simp_all
  from len obtain f g where fg: "fetches ?out = [f, g]"
    by (auto simp: length_Suc_conv numeral_2_eq_2)
  with all h show ?thesis by simp
qed

subsection \<open>C9: the retained suffix\<close>



subsection \<open>C10: the sampling parameters\<close>

text \<open>
  C10.  Every fetch started by \<open>generateCompletions\<close> carries request parameters
  with \<open>temperature\<close> 0.2 and \<open>topK\<close> 0, for every model, mode and flag, and there
  are \<open>n\<close> such fetches.
\<close>

theorem sampling_parameters_fixed:
  "(\<forall>f \<in> set (fetches (generateCompletions ext p snippets deliveries)).
       temperature (requestParams f) = 0.2 \<and> topK (requestParams f) = 0)
   \<and> length (fetches (generateCompletions ext p snippets deliveries)) = optN (options p)"
  by (simp add: generateCompletions_def dispatchRequests_def resolveRequestParams_timeout_nonzero
      Let_def)
     (simp add: resolveRequestParams_def Let_def split: option.splits)

theorem sampling_parameters_fixed_witness:
  "length (fetches (generateCompletions sampleExternals
      (newFireworksProvider sampleExternals sampleOptions ''starcoder-hybrid'' 2048 noTimeouts)
      [] [(0, ''a''), (Suc 0, ''b'')])) = 2
   \<and> map (\<lambda>f. temperature (requestParams f)) (fetches (generateCompletions sampleExternals
      (newFireworksProvider sampleExternals sampleOptions ''starcoder-hybrid'' 2048 noTimeouts)
      [] [(0, ''a''), (Suc 0, ''b'')])) = [0.2, 0.2]
   \<and> map (\<lambda>f. topK (requestParams f)) (fetches (generateCompletions sampleExternals
      (newFireworksProvider sampleExternals sampleOptions ''starcoder-hybrid'' 2048 noTimeouts)
      [] [(0, ''a''), (Suc 0, ''b'')])) = [0, 0]"
proof -
  let ?out = "generateCompletions sampleExternals
      (newFireworksProvider sampleExternals sampleOptions ''starcoder-hybrid'' 2048 noTimeouts)
      [] [(0, ''a''), (Suc 0, ''b'')]"
  from sampling_parameters_fixed
    [of sampleExternals
        "newFireworksProvider sampleExternals sampleOptions ''starcoder-hybrid'' 2048 noTimeouts"
        "[]" "[(0, ''a''), (Suc 0, ''b'')]"]
  have all: "\<forall>f \<in> set (fetches ?out).
       temperature (requestParams f) = 0.2 \<and> topK (requestParams f) = 0"
    and len: "length (fetches ?out) = 2"
    by (simp_all add: sample_optN)
  from len obtain f g where fg: "fetches ?out = [f, g]"
    by (auto simp: length_Suc_conv numeral_2_eq_2)
  with all show ?thesis by simp
qed

end
